theory Spec2Isabelle
  imports Main
begin

section \<open>Shared data model\<close>

text \<open>
  \<open>variables.RuleVariable\<close> is a small integer type of the upstream library; the value
  \<open>0\<close> is \<open>variables.Unknown\<close>.
\<close>

type_synonym RuleVariable = nat

definition Unknown :: RuleVariable where
  "Unknown = 0"

text \<open>\<open>corazarules.MatchData\<close>: the record a find operation returns. Its fields are
  \<open>Variable_\<close>, \<open>Key_\<close> and \<open>Value_\<close> in the source.\<close>

record MatchData =
  md_Variable :: RuleVariable
  md_Key :: string
  md_Value :: string

text \<open>\<open>types.Interruption\<close>, as far as the deny action fills it.\<close>

record Interruption =
  Status :: int
  RuleID :: int
  Action :: string

text \<open>
  The three kinds of collection the macro expander tells apart with its type switch:
  \<open>collection.Keyed\<close> (its \<open>Get\<close>), \<open>collection.Single\<close> (its one value) and any other
  collection (the result of its \<open>FindAll\<close>).
\<close>

datatype collection =
  Keyed "string \<Rightarrow> string list"
  | Single string
  | Generic "MatchData list"

text \<open>
  A warning written to the debug logger by the macro expander: the variable and the key
  the message carries.
\<close>

datatype log_event = Warn RuleVariable string

text \<open>
  \<open>plugintypes.TransactionState\<close> is an interface; the record holds what its methods read
  and what they are handed. \<open>captured\<close> is the sequence of \<open>CaptureField(index, value)\<close>
  calls received so far, oldest first; \<open>interruption\<close> is the interruption last handed to
  \<open>Interrupt\<close>, if any; \<open>debugLog\<close> holds the warnings written so far, oldest first.
  \<open>Collection\<close> gives a collection for every variable.
\<close>

record TransactionState =
  Capturing :: bool
  captured :: "(nat \<times> string) list"
  interruption :: "Interruption option"
  Collection :: "RuleVariable \<Rightarrow> collection"
  debugLog :: "log_event list"

definition CaptureField :: "nat \<Rightarrow> string \<Rightarrow> TransactionState \<Rightarrow> TransactionState" where
  "CaptureField i c tx = tx\<lparr>captured := captured tx @ [(i, c)]\<rparr>"

definition Interrupt :: "Interruption \<Rightarrow> TransactionState \<Rightarrow> TransactionState" where
  "Interrupt it tx = tx\<lparr>interruption := Some it\<rparr>"

section \<open>The regular expression operator\<close>

text \<open>
  The two matching engines (\<open>regexp\<close> of the standard library and \<open>binaryregexp\<close>) are
  not part of this repository. A compiled expression is what the operator uses of it:
  its source text and its two matching functions. \<open>FindStringSubmatch\<close> returns the
  groups of the leftmost match, group 0 first, and the empty list when nothing matches.
\<close>

record Regexp =
  expr :: string
  FindStringSubmatch :: "string \<Rightarrow> string list"
  MatchString :: "string \<Rightarrow> bool"

text \<open>
  The body of \<open>for i, c := range match\<close> in both \<open>Evaluate\<close> methods, from index \<open>i\<close>
  on: it returns true at index 9 and stores the group otherwise.
\<close>

fun capture_loop :: "nat \<Rightarrow> string list \<Rightarrow> TransactionState \<Rightarrow> bool \<times> TransactionState" where
  "capture_loop i [] tx = (True, tx)"
| "capture_loop i (c # cs) tx =
     (if i = 9 then (True, tx) else capture_loop (Suc i) cs (CaptureField i c tx))"

definition rx_Evaluate :: "Regexp \<Rightarrow> TransactionState \<Rightarrow> string \<Rightarrow> bool \<times> TransactionState" where
  "rx_Evaluate re tx v =
     (if Capturing tx then
        (let match = FindStringSubmatch re v
         in if length match = 0 then (False, tx) else capture_loop 0 match tx)
      else (MatchString re v, tx))"

definition binaryRX_Evaluate :: "Regexp \<Rightarrow> TransactionState \<Rightarrow> string \<Rightarrow> bool \<times> TransactionState" where
  "binaryRX_Evaluate re tx v =
     (if Capturing tx then
        (let match = FindStringSubmatch re v
         in if length match = 0 then (False, tx) else capture_loop 0 match tx)
      else (MatchString re v, tx))"

text \<open>The two implementations of \<open>plugintypes.Operator\<close> that \<open>newRX\<close> can return.\<close>

datatype Operator = RX Regexp | BinaryRX Regexp


subsection \<open>Choosing the engine\<close>

definition backslash :: char where
  "backslash = CHR 0x5C"

text \<open>\<open>unhex\<close> of \<open>strconv\<close>: the value of a hexadecimal digit.\<close>

definition unhex :: "char \<Rightarrow> nat option" where
  "unhex b =
     (let c = (of_char b :: nat)
      in if 48 \<le> c \<and> c \<le> 57 then Some (c - 48)
         else if 97 \<le> c \<and> c \<le> 102 then Some (c - 97 + 10)
         else if 65 \<le> c \<and> c \<le> 70 then Some (c - 65 + 10)
         else None)"

text \<open>
  \<open>strconv.UnquoteChar(s, 0)\<close> on a string that starts with a backslash followed by
  \<open>x\<close>, which is the only way \<open>matchesArbitraryBytes\<close> calls it: two hexadecimal digits
  give the value \<open>16 * d1 + d2\<close>, not multibyte, and the tail after them; anything else
  is a syntax error (\<open>None\<close>).
\<close>

fun UnquoteChar :: "string \<Rightarrow> (nat \<times> bool \<times> string) option" where
  "UnquoteChar (b # x # h1 # h2 # tail) =
     (if b = backslash \<and> x = CHR ''x'' then
        (case unhex h1 of
           None \<Rightarrow> None
         | Some d1 \<Rightarrow>
             (case unhex h2 of
                None \<Rightarrow> None
              | Some d2 \<Rightarrow> Some (16 * d1 + d2, False, tail)))
      else None)"
| "UnquoteChar _ = None"

text \<open>
  \<open>utf8.Valid\<close> of the standard library. \<open>first\<close> gives, for a leading byte, the length
  of its sequence and the range accepted for the second byte; \<open>None\<close> is an illegal
  leading byte.
\<close>

definition first :: "nat \<Rightarrow> (nat \<times> nat \<times> nat) option" where
  "first b =
     (if 0xC2 \<le> b \<and> b \<le> 0xDF then Some (2, 0x80, 0xBF)
      else if b = 0xE0 then Some (3, 0xA0, 0xBF)
      else if 0xE1 \<le> b \<and> b \<le> 0xEC then Some (3, 0x80, 0xBF)
      else if b = 0xED then Some (3, 0x80, 0x9F)
      else if 0xEE \<le> b \<and> b \<le> 0xEF then Some (3, 0x80, 0xBF)
      else if b = 0xF0 then Some (4, 0x90, 0xBF)
      else if 0xF1 \<le> b \<and> b \<le> 0xF3 then Some (4, 0x80, 0xBF)
      else if b = 0xF4 then Some (4, 0x80, 0x8F)
      else None)"

definition continuation :: "char \<Rightarrow> bool" where
  "continuation c \<longleftrightarrow> 0x80 \<le> (of_char c :: nat) \<and> (of_char c :: nat) \<le> 0xBF"

function utf8_Valid :: "string \<Rightarrow> bool" where
  "utf8_Valid [] = True"
| "utf8_Valid (p # ps) =
     (if (of_char p :: nat) < 0x80 then utf8_Valid ps
      else
        (case first (of_char p) of
           None \<Rightarrow> False
         | Some (sz, lo, hi) \<Rightarrow>
             if Suc (length ps) < sz then False
             else if (of_char (ps ! 0) :: nat) < lo \<or> hi < (of_char (ps ! 0) :: nat) then False
             else if sz = 2 then utf8_Valid (drop 1 ps)
             else if \<not> continuation (ps ! 1) then False
             else if sz = 3 then utf8_Valid (drop 2 ps)
             else if \<not> continuation (ps ! 2) then False
             else utf8_Valid (drop 3 ps)))"
  by pat_completeness auto
termination
  by (relation "measure length") auto

text \<open>
  The loop of \<open>matchesArbitraryBytes\<close> at index \<open>i\<close>, with the bytes decoded so far.
\<close>

function decode_loop :: "string \<Rightarrow> nat \<Rightarrow> string \<Rightarrow> string" where
  "decode_loop e i decoded =
     (if i < length e then
        (let c = e ! i
         in if c \<noteq> backslash then decode_loop e (i + 1) (decoded @ [c])
            else if i + 3 \<ge> length e then decoded @ drop i e
            else if e ! (i + 1) \<noteq> CHR ''x'' then decode_loop e (i + 1) (decoded @ [e ! i])
            else
              (case UnquoteChar (drop i e) of
                 None \<Rightarrow> decode_loop e (i + 1) (decoded @ [e ! i])
               | Some (v, mb, tail) \<Rightarrow>
                   if mb then decode_loop e (i + 1) (decoded @ [e ! i])
                   else decode_loop e (i + 3 + 1) (decoded @ [char_of v])))
      else decoded)"
  by pat_completeness auto
termination
  by (relation "measure (\<lambda>(e, i, decoded). length e - i)") auto

declare decode_loop.simps [simp del]

definition matchesArbitraryBytes :: "string \<Rightarrow> bool" where
  "matchesArbitraryBytes e = (\<not> utf8_Valid (decode_loop e 0 []))"

text \<open>
  \<open>plugintypes.OperatorOptions\<close>; the constructors read its \<open>Arguments\<close> only.
\<close>

record OperatorOptions =
  Arguments :: string

text \<open>
  \<open>newBinaryRX\<close> and \<open>newRX\<close>. The compilers of the two engines are parameters:
  \<open>bc\<close> stands for \<open>binaryregexp.Compile\<close> and \<open>rc\<close> for \<open>regexp.Compile\<close>, each
  returning its error or the compiled expression. \<open>memoize.Do\<close> returns what the
  compiler returns for the key, so the cache does not show in the result. \<open>narrow\<close> is
  the build-time constant \<open>shouldNotUseMultilineRegexesOperatorByDefault\<close>.
\<close>

definition newBinaryRX :: "(string \<Rightarrow> 'e + Regexp) \<Rightarrow> OperatorOptions \<Rightarrow> 'e + Operator" where
  "newBinaryRX bc options =
     (let data = Arguments options
      in case bc data of Inl err \<Rightarrow> Inl err | Inr re \<Rightarrow> Inr (BinaryRX re))"

definition newRX ::
  "bool \<Rightarrow> (string \<Rightarrow> 'e + Regexp) \<Rightarrow> (string \<Rightarrow> 'e + Regexp) \<Rightarrow> OperatorOptions \<Rightarrow> 'e + Operator" where
  "newRX narrow rc bc options =
     (let data = (if narrow then ''(?s)'' @ Arguments options
                  else ''(?sm)'' @ Arguments options)
      in if matchesArbitraryBytes data then newBinaryRX bc options
         else (case rc data of Inl err \<Rightarrow> Inl err | Inr re \<Rightarrow> Inr (RX re)))"

subsection \<open>The binary engine on patterns of literal bytes\<close>






section \<open>The deny action\<close>

text \<open>\<open>plugintypes.RuleMetadata\<close>, the three getters \<open>denyFn.Evaluate\<close> calls.\<close>

record RuleMetadata =
  ID :: int
  ParentID :: int
  rStatus :: int

definition noID :: int where
  "noID = 0"

definition noStatus :: int where
  "noStatus = 0"

definition StatusForbidden :: int where
  "StatusForbidden = 403"

definition denyFn_Evaluate :: "RuleMetadata \<Rightarrow> TransactionState \<Rightarrow> TransactionState" where
  "denyFn_Evaluate r tx =
     (let rid = ID r;
          rid = (if rid = noID then ParentID r else rid);
          status = rStatus r;
          status = (if status = noStatus then StatusForbidden else status)
      in Interrupt \<lparr>Status = status, RuleID = rid, Action = ''deny''\<rparr> tx)"

section \<open>The macro expander\<close>

record macroToken =
  t_text :: string
  t_variable :: RuleVariable
  t_key :: string

record macro =
  original :: string
  tokens :: "macroToken list"

text \<open>The errors \<open>NewMacro\<close> and \<open>compile\<close> return, one constructor for each.\<close>

datatype macro_error =
  errEmptyData
  | ErrEmptyMacro
  | ErrEmptyVariableName
  | ErrUnknownVariable string
  | ErrMalformedVariable string
  | ErrNoClosingBraces

definition isValidMacroChar :: "char \<Rightarrow> bool" where
  "isValidMacroChar c \<longleftrightarrow>
     c = CHR ''['' \<or> c = CHR '']'' \<or> c = CHR ''.'' \<or> c = CHR ''_'' \<or> c = CHR ''-''
     \<or> (48 \<le> (of_char c :: nat) \<and> (of_char c :: nat) \<le> 57)
     \<or> (65 \<le> (of_char c :: nat) \<and> (of_char c :: nat) \<le> 90)
     \<or> (97 \<le> (of_char c :: nat) \<and> (of_char c :: nat) \<le> 122)"

text \<open>
  \<open>strings.ToLower\<close> on the letters \<open>A\<close> to \<open>Z\<close>; every other byte is kept. The key of a
  reference holds bytes accepted by \<open>isValidMacroChar\<close> only, where this is all
  \<open>strings.ToLower\<close> does.
\<close>

definition toLower_char :: "char \<Rightarrow> char" where
  "toLower_char c =
     (if 65 \<le> (of_char c :: nat) \<and> (of_char c :: nat) \<le> 90
      then char_of ((of_char c :: nat) + 32) else c)"

definition ToLower :: "string \<Rightarrow> string" where
  "ToLower s = map toLower_char s"

text \<open>
  \<open>strings.Cut(s, sep)\<close> for a separator of one byte: the text before the first
  separator, the text after it, and whether the separator occurs.
\<close>

definition Cut :: "string \<Rightarrow> char \<Rightarrow> string \<times> string \<times> bool" where
  "Cut s sep =
     (if sep \<in> set s
      then (takeWhile (\<lambda>c. c \<noteq> sep) s, drop 1 (dropWhile (\<lambda>c. c \<noteq> sep) s), True)
      else (s, [], False))"

text \<open>
  \<open>expandToken\<close>. The warning is reached when a keyed collection has no value for the
  key and when another collection finds nothing.
\<close>

definition expandToken :: "TransactionState \<Rightarrow> macroToken \<Rightarrow> string \<times> TransactionState" where
  "expandToken tx token =
     (let notFound =
            (t_text token,
             tx\<lparr>debugLog := debugLog tx @ [Warn (t_variable token) (t_key token)]\<rparr>)
      in if t_variable token = Unknown then (t_text token, tx)
         else
           (case Collection tx (t_variable token) of
              Keyed get \<Rightarrow>
                (let c = get (t_key token)
                 in if length c > 0 then (hd c, tx) else notFound)
            | Single v \<Rightarrow> (v, tx)
            | Generic found \<Rightarrow>
                (if length found > 0 then (md_Value (hd found), tx) else notFound)))"

text \<open>The loop of \<open>Expand\<close> over the tokens, with the text built so far.\<close>

fun Expand_loop :: "macroToken list \<Rightarrow> string \<Rightarrow> TransactionState \<Rightarrow> string \<times> TransactionState" where
  "Expand_loop [] res tx = (res, tx)"
| "Expand_loop (token # rest) res tx =
     (case expandToken tx token of (s, tx') \<Rightarrow> Expand_loop rest (res @ s) tx')"

definition Expand :: "macro \<Rightarrow> TransactionState \<Rightarrow> string \<times> TransactionState" where
  "Expand m tx =
     (if length (tokens m) = 1 then expandToken tx (tokens m ! 0)
      else Expand_loop (tokens m) [] tx)"

text \<open>
  The loop of \<open>compile\<close> at index \<open>i\<close>: \<open>cur\<close> is \<open>currentToken\<close>, \<open>toks\<close> is \<open>m.tokens\<close>.
  \<open>parse\<close> stands for \<open>variables.Parse\<close> of the upstream library, \<open>None\<close> being its
  error. The read of \<open>input[i-1]\<close> happens inside a reference only, so after the two
  bytes of an opener.
\<close>

function compile_loop ::
  "(string \<Rightarrow> RuleVariable option) \<Rightarrow> string \<Rightarrow> nat \<Rightarrow> string \<Rightarrow> bool \<Rightarrow> macroToken list
     \<Rightarrow> macro_error + macroToken list" where
  "compile_loop parse input i cur isMacro toks =
     (if i < length input then
        (let c = input ! i
         in if c = CHR ''%'' \<and> i + 1 < length input \<and> input ! (i + 1) = CHR ''{'' then
              (if length cur > 0
               then compile_loop parse input (i + 1 + 1) [] True
                      (toks @ [\<lparr>t_text = cur, t_variable = Unknown, t_key = []\<rparr>])
               else compile_loop parse input (i + 1 + 1) cur True toks)
            else if isMacro then
              (if c = CHR ''}'' then
                 (if input ! (i - 1) = CHR ''.'' then Inl ErrEmptyVariableName
                  else
                    (case Cut cur (CHR ''.'') of
                       (varName, k, _) \<Rightarrow>
                         (case parse varName of
                            None \<Rightarrow> Inl (ErrUnknownVariable varName)
                          | Some v \<Rightarrow>
                              compile_loop parse input (i + 1) [] False
                                (toks @ [\<lparr>t_text = cur, t_variable = v, t_key = ToLower k\<rparr>]))))
               else if \<not> isValidMacroChar c then Inl (ErrMalformedVariable (''%{'' @ cur))
               else if i + 1 = length input then Inl ErrNoClosingBraces
               else compile_loop parse input (i + 1) (cur @ [c]) True toks)
            else compile_loop parse input (i + 1) (cur @ [c]) False toks)
      else
        Inr (if length cur > 0
             then toks @ [\<lparr>t_text = cur, t_variable = Unknown, t_key = []\<rparr>]
             else toks))"
  by pat_completeness auto
termination
  by (relation "measure (\<lambda>(parse, input, i, cur, isMacro, toks). length input - i)") auto

definition compile :: "(string \<Rightarrow> RuleVariable option) \<Rightarrow> macro \<Rightarrow> string \<Rightarrow> macro_error + macro" where
  "compile parse m input =
     (if length input = 0 then Inl ErrEmptyMacro
      else
        (case compile_loop parse input 0 [] False (tokens m) of
           Inl err \<Rightarrow> Inl err
         | Inr toks \<Rightarrow> Inr \<lparr>original = input, tokens = toks\<rparr>))"

definition NewMacro :: "(string \<Rightarrow> RuleVariable option) \<Rightarrow> string \<Rightarrow> macro_error + macro" where
  "NewMacro parse d =
     (if length d = 0 then Inl errEmptyData
      else
        (case compile parse \<lparr>original = [], tokens = []\<rparr> d of
           Inl err \<Rightarrow> Inl err
         | Inr m \<Rightarrow> Inr m))"

section \<open>Named collections and their names view\<close>

text \<open>
  An element of the map's value slices: the key as it was written and the value. The
  fields are \<open>key\<close> and \<open>value\<close> in the source.
\<close>

record keyValue =
  kv_key :: string
  kv_value :: string

text \<open>
  The embedded \<open>Map\<close>, as far as \<open>named.go\<close> reads it: \<open>data\<close>, from the key of the
  map to the elements stored under it, and the variable. Go visits the keys of a map in
  an order it does not specify; the list gives the order of one visit, each key once.
\<close>

record Map =
  m_data :: "(string \<times> keyValue list) list"
  m_variable :: RuleVariable

record NamedCollection =
  nc_Map :: Map

record NamedCollectionNames =
  n_variable :: RuleVariable
  n_collection :: NamedCollection

text \<open>
  Modelled from the spec: \<open>NewMap\<close>, \<open>Map.Add\<close> and \<open>Map.Get\<close> of \<open>map.go\<close>, which is
  not among the sources. The spec has the collection as an ordered multi-map from a
  case-insensitive key to an ordered sequence of values, each value tagged with its
  original-case key; \<open>Add(key, value)\<close> appends, and \<open>Get(key)\<close> is the case-insensitive
  exact lookup that returns the values in order.
\<close>

definition NewMap :: "RuleVariable \<Rightarrow> Map" where
  "NewMap rv = \<lparr>m_data = [], m_variable = rv\<rparr>"

fun add_entry :: "string \<Rightarrow> keyValue \<Rightarrow> (string \<times> keyValue list) list \<Rightarrow> (string \<times> keyValue list) list" where
  "add_entry k e [] = [(k, [e])]"
| "add_entry k e ((k', ds) # rest) =
     (if k' = k then (k', ds @ [e]) # rest else (k', ds) # add_entry k e rest)"

definition Map_Add :: "Map \<Rightarrow> string \<Rightarrow> string \<Rightarrow> Map" where
  "Map_Add m k v =
     m\<lparr>m_data := add_entry (ToLower k) \<lparr>kv_key = k, kv_value = v\<rparr> (m_data m)\<rparr>"

definition Map_Get :: "Map \<Rightarrow> string \<Rightarrow> string list" where
  "Map_Get m k =
     (case map_of (m_data m) (ToLower k) of
        None \<Rightarrow> []
      | Some ds \<Rightarrow> map kv_value ds)"

definition NewNamedCollection :: "RuleVariable \<Rightarrow> NamedCollection" where
  "NewNamedCollection rv = \<lparr>nc_Map = NewMap rv\<rparr>"

definition NamedCollection_Add :: "NamedCollection \<Rightarrow> string \<Rightarrow> string \<Rightarrow> NamedCollection" where
  "NamedCollection_Add c k v = c\<lparr>nc_Map := Map_Add (nc_Map c) k v\<rparr>"

definition Names :: "NamedCollection \<Rightarrow> RuleVariable \<Rightarrow> NamedCollectionNames" where
  "Names c rv = \<lparr>n_variable = rv, n_collection = c\<rparr>"

text \<open>
  The inner loop of the three find operations: one record for each element, with the
  element's key in both \<open>Key_\<close> and \<open>Value_\<close>.
\<close>

fun append_names :: "RuleVariable \<Rightarrow> keyValue list \<Rightarrow> MatchData list \<Rightarrow> MatchData list" where
  "append_names rv [] res = res"
| "append_names rv (d # ds) res =
     append_names rv ds
       (res @ [\<lparr>md_Variable = rv, md_Key = kv_key d, md_Value = kv_key d\<rparr>])"

fun FindRegex_loop ::
  "RuleVariable \<Rightarrow> Regexp \<Rightarrow> (string \<times> keyValue list) list \<Rightarrow> MatchData list \<Rightarrow> MatchData list" where
  "FindRegex_loop rv re [] res = res"
| "FindRegex_loop rv re ((k, ds) # rest) res =
     (if \<not> MatchString re k then FindRegex_loop rv re rest res
      else FindRegex_loop rv re rest (append_names rv ds res))"

fun FindString_loop ::
  "RuleVariable \<Rightarrow> string \<Rightarrow> (string \<times> keyValue list) list \<Rightarrow> MatchData list \<Rightarrow> MatchData list" where
  "FindString_loop rv key [] res = res"
| "FindString_loop rv key ((k, ds) # rest) res =
     (if k \<noteq> key then FindString_loop rv key rest res
      else FindString_loop rv key rest (append_names rv ds res))"

fun FindAll_loop ::
  "RuleVariable \<Rightarrow> (string \<times> keyValue list) list \<Rightarrow> MatchData list \<Rightarrow> MatchData list" where
  "FindAll_loop rv [] res = res"
| "FindAll_loop rv ((k, ds) # rest) res = FindAll_loop rv rest (append_names rv ds res)"

definition FindRegex :: "NamedCollectionNames \<Rightarrow> Regexp \<Rightarrow> MatchData list" where
  "FindRegex c re = FindRegex_loop (n_variable c) re (m_data (nc_Map (n_collection c))) []"

definition FindString :: "NamedCollectionNames \<Rightarrow> string \<Rightarrow> MatchData list" where
  "FindString c key = FindString_loop (n_variable c) key (m_data (nc_Map (n_collection c))) []"

definition Get :: "NamedCollectionNames \<Rightarrow> string \<Rightarrow> string list" where
  "Get c key = Map_Get (nc_Map (n_collection c)) key"

definition FindAll :: "NamedCollectionNames \<Rightarrow> MatchData list" where
  "FindAll c = FindAll_loop (n_variable c) (m_data (nc_Map (n_collection c))) []"

text \<open>The record the names view builds for one element.\<close>

definition name_record :: "RuleVariable \<Rightarrow> keyValue \<Rightarrow> MatchData" where
  "name_record rv d = \<lparr>md_Variable = rv, md_Key = kv_key d, md_Value = kv_key d\<rparr>"

section \<open>Properties of the deny action\<close>

text \<open>
  C3: for every rule metadata and transaction state, the deny action sets an
  Interruption whose RuleID is the rule's own ID when that is nonzero and the parent
  rule's ID otherwise, whose Status is the rule's status when nonzero and 403 otherwise,
  and whose Action is "deny"; nothing else of the transaction changes.
\<close>

theorem deny_sets_interruption:
  "\<exists>it. interruption (denyFn_Evaluate r tx) = Some it
     \<and> (ID r \<noteq> 0 \<longrightarrow> RuleID it = ID r)
     \<and> (ID r = 0 \<longrightarrow> RuleID it = ParentID r)
     \<and> (rStatus r \<noteq> 0 \<longrightarrow> Status it = rStatus r)
     \<and> (rStatus r = 0 \<longrightarrow> Status it = 403)
     \<and> Action it = ''deny''
     \<and> denyFn_Evaluate r tx = tx\<lparr>interruption := Some it\<rparr>"
  by (simp add: denyFn_Evaluate_def Interrupt_def noID_def noStatus_def StatusForbidden_def
      Let_def)

theorem deny_sets_interruption_witness:
  "\<exists>it. interruption (denyFn_Evaluate \<lparr>ID = 0, ParentID = 107, rStatus = 0\<rparr>
            \<lparr>Capturing = False, captured = [], interruption = None,
             Collection = (\<lambda>_. Single []), debugLog = []\<rparr>) = Some it
     \<and> RuleID it = 107 \<and> Status it = 403 \<and> Action it = ''deny''"
  using deny_sets_interruption
    [of "\<lparr>ID = 0, ParentID = 107, rStatus = 0\<rparr>"
        "\<lparr>Capturing = False, captured = [], interruption = None,
          Collection = (\<lambda>_. Single []), debugLog = []\<rparr>"]
  by auto

section \<open>Properties of the regular expression operator\<close>

lemma capture_loop_writes:
  "i \<le> 9 \<Longrightarrow> capture_loop i cs tx = (True, tx\<lparr>captured := captured tx @ zip [i..<9] cs\<rparr>)"
proof (induction cs arbitrary: i tx)
  case Nil
  then show ?case by simp
next
  case (Cons c cs)
  show ?case
  proof (cases "i = 9")
    case True
    then show ?thesis by simp
  next
    case False
    with Cons.prems have lt: "i < 9" by simp
    then have "[i..<9] = i # [Suc i..<9]" by (simp add: upt_conv_Cons)
    moreover from lt have "Suc i \<le> 9" by simp
    ultimately show ?thesis
      using False Cons.IH [of "Suc i" "CaptureField i c tx"]
      by (simp add: CaptureField_def)
  qed
qed

lemma zip_upt_index:
  "(i, c) \<in> set (zip [0..<9] m) \<Longrightarrow> i \<le> 8 \<and> i < length m \<and> c = m ! i"
  by (auto simp: set_zip)


lemma rx_Evaluate_verdict:
  "fst (rx_Evaluate re tx v) =
     (if Capturing tx then FindStringSubmatch re v \<noteq> [] else MatchString re v)"
  by (simp add: rx_Evaluate_def Let_def capture_loop_writes)

lemma newRX_text_path:
  "\<not> matchesArbitraryBytes ((if narrow then ''(?s)'' else ''(?sm)'') @ Arguments options) \<Longrightarrow>
   newRX narrow rc bc options =
     (case rc ((if narrow then ''(?s)'' else ''(?sm)'') @ Arguments options) of
        Inl err \<Rightarrow> Inl err | Inr re \<Rightarrow> Inr (RX re))"
  by (cases narrow) (simp_all add: newRX_def)

text \<open>
  C2: in capturing mode, when the expression matches with groups \<open>m\<close> (group 0 first),
  both \<open>Evaluate\<close> methods return true and the \<open>CaptureField\<close> calls they add are exactly
  the pairs of an index from 0 to 8 with the group at that index, in order: as many
  as there are groups, and nine at most. No call has an index of 9 or more, however
  many groups the match has.
\<close>

theorem rx_capture_first_nine:
  assumes "Capturing tx" and "FindStringSubmatch re v = m" and "m \<noteq> []"
  shows "rx_Evaluate re tx v = (True, tx\<lparr>captured := captured tx @ zip [0..<9] m\<rparr>)
       \<and> binaryRX_Evaluate re tx v = (True, tx\<lparr>captured := captured tx @ zip [0..<9] m\<rparr>)
       \<and> length (zip [0..<9] m) = min 9 (length m)
       \<and> (\<forall>(i, c) \<in> set (zip [0..<9] m). i \<le> 8 \<and> i < length m \<and> c = m ! i)"
proof -
  have "capture_loop 0 m tx = (True, tx\<lparr>captured := captured tx @ zip [0..<9] m\<rparr>)"
    by (rule capture_loop_writes) simp
  with assms show ?thesis
    using zip_upt_index [of _ _ m]
    by (auto simp: rx_Evaluate_def binaryRX_Evaluate_def Let_def)
qed

theorem rx_capture_first_nine_witness:
  "rx_Evaluate
     \<lparr>expr = ''(?sm)(a)(b)(c)(d)(e)(f)(g)(h)(i)(j)(k)'',
      FindStringSubmatch =
        (\<lambda>_. [''abcdefghijk'', ''a'', ''b'', ''c'', ''d'', ''e'', ''f'', ''g'', ''h'', ''i'',
              ''j'', ''k'']),
      MatchString = (\<lambda>_. True)\<rparr>
     \<lparr>Capturing = True, captured = [], interruption = None,
      Collection = (\<lambda>_. Single []), debugLog = []\<rparr> ''abcdefghijk''
   = (True,
      \<lparr>Capturing = True,
       captured = [(0, ''abcdefghijk''), (1, ''a''), (2, ''b''), (3, ''c''), (4, ''d''),
                   (5, ''e''), (6, ''f''), (7, ''g''), (8, ''h'')],
       interruption = None, Collection = (\<lambda>_. Single []), debugLog = []\<rparr>)"
  using rx_capture_first_nine
    [of "\<lparr>Capturing = True, captured = [], interruption = None,
          Collection = (\<lambda>_. Single []), debugLog = []\<rparr>"
        "\<lparr>expr = ''(?sm)(a)(b)(c)(d)(e)(f)(g)(h)(i)(j)(k)'',
          FindStringSubmatch =
            (\<lambda>_. [''abcdefghijk'', ''a'', ''b'', ''c'', ''d'', ''e'', ''f'', ''g'', ''h'', ''i'',
                  ''j'', ''k'']),
          MatchString = (\<lambda>_. True)\<rparr>"
        "''abcdefghijk''"
        "[''abcdefghijk'', ''a'', ''b'', ''c'', ''d'', ''e'', ''f'', ''g'', ''h'', ''i'',
          ''j'', ''k'']"]
  by (simp add: upt_conv_Cons)

text \<open>
  C8: in capturing mode, when the expression does not match (no groups are found),
  both \<open>Evaluate\<close> methods return false and the transaction is as it was: no
  \<open>CaptureField\<close> call is made.
\<close>

theorem rx_no_match_no_capture:
  assumes "Capturing tx" and "FindStringSubmatch re v = []"
  shows "rx_Evaluate re tx v = (False, tx) \<and> binaryRX_Evaluate re tx v = (False, tx)"
  using assms by (simp add: rx_Evaluate_def binaryRX_Evaluate_def)

theorem rx_no_match_no_capture_witness:
  "rx_Evaluate \<lparr>expr = ''(?sm)a'', FindStringSubmatch = (\<lambda>_. []), MatchString = (\<lambda>_. False)\<rparr>
     \<lparr>Capturing = True, captured = [(0, ''old'')], interruption = None,
      Collection = (\<lambda>_. Single []), debugLog = []\<rparr> ''b''
   = (False,
      \<lparr>Capturing = True, captured = [(0, ''old'')], interruption = None,
       Collection = (\<lambda>_. Single []), debugLog = []\<rparr>)"
  using rx_no_match_no_capture
    [of "\<lparr>Capturing = True, captured = [(0, ''old'')], interruption = None,
          Collection = (\<lambda>_. Single []), debugLog = []\<rparr>"
        "\<lparr>expr = ''(?sm)a'', FindStringSubmatch = (\<lambda>_. []), MatchString = (\<lambda>_. False)\<rparr>"
        "''b''"]
  by simp





























text \<open>
  C6, at the argument \<open>\xff.\<close>: whichever mode is configured, \<open>newRX\<close> hands the
  binary engine's compiler the argument as it is, with no \<open>(?sm)\<close> and no \<open>(?s)\<close> in
  front, and returns the binary operator for it.
\<close>

theorem newRX_binary_path_unwrapped:
  "newRX narrow rc bc \<lparr>Arguments = backslash # ''xff.''\<rparr> =
     (case bc (backslash # ''xff.'') of Inl err \<Rightarrow> Inl err | Inr re \<Rightarrow> Inr (BinaryRX re))"
proof -
  have "matchesArbitraryBytes (''(?s)'' @ backslash # ''xff.'')"
    by (simp add: matchesArbitraryBytes_def decode_loop.simps backslash_def unhex_def first_def)
  moreover have "matchesArbitraryBytes (''(?sm)'' @ backslash # ''xff.'')"
    by (simp add: matchesArbitraryBytes_def decode_loop.simps backslash_def unhex_def first_def)
  ultimately show ?thesis
    by (cases narrow) (simp_all add: newRX_def newBinaryRX_def)
qed

section \<open>Properties of the macro expander\<close>

text \<open>
  C1, at the template \<open>prefix %{tx.foo} suffix\<close>: the reference compiles to a token
  whose text is \<open>tx.foo\<close>, without the delimiters, and against a transaction whose keyed
  collection has no value for \<open>foo\<close> the expansion is \<open>prefix tx.foo suffix\<close> with one
  warning logged; with the value \<open>bar\<close> stored first under \<open>foo\<close> it is
  \<open>prefix bar suffix\<close> and nothing is logged.
\<close>

theorem Expand_absent_key_drops_delimiters:
  "NewMacro (\<lambda>name. if name = ''tx'' then Some 1 else None) ''prefix %{tx.foo} suffix'' =
     Inr \<lparr>original = ''prefix %{tx.foo} suffix'',
          tokens = [\<lparr>t_text = ''prefix '', t_variable = Unknown, t_key = []\<rparr>,
                    \<lparr>t_text = ''tx.foo'', t_variable = 1, t_key = ''foo''\<rparr>,
                    \<lparr>t_text = '' suffix'', t_variable = Unknown, t_key = []\<rparr>]\<rparr>
   \<and> Expand \<lparr>original = ''prefix %{tx.foo} suffix'',
          tokens = [\<lparr>t_text = ''prefix '', t_variable = Unknown, t_key = []\<rparr>,
                    \<lparr>t_text = ''tx.foo'', t_variable = 1, t_key = ''foo''\<rparr>,
                    \<lparr>t_text = '' suffix'', t_variable = Unknown, t_key = []\<rparr>]\<rparr>
        \<lparr>Capturing = False, captured = [], interruption = None,
         Collection = (\<lambda>_. Keyed (\<lambda>_. [])), debugLog = []\<rparr>
     = (''prefix tx.foo suffix'',
        \<lparr>Capturing = False, captured = [], interruption = None,
         Collection = (\<lambda>_. Keyed (\<lambda>_. [])), debugLog = [Warn 1 ''foo'']\<rparr>)
   \<and> Expand \<lparr>original = ''prefix %{tx.foo} suffix'',
          tokens = [\<lparr>t_text = ''prefix '', t_variable = Unknown, t_key = []\<rparr>,
                    \<lparr>t_text = ''tx.foo'', t_variable = 1, t_key = ''foo''\<rparr>,
                    \<lparr>t_text = '' suffix'', t_variable = Unknown, t_key = []\<rparr>]\<rparr>
        \<lparr>Capturing = False, captured = [], interruption = None,
         Collection = (\<lambda>_. Keyed (\<lambda>k. if k = ''foo'' then [''bar'', ''baz''] else [])),
         debugLog = []\<rparr>
     = (''prefix bar suffix'',
        \<lparr>Capturing = False, captured = [], interruption = None,
         Collection = (\<lambda>_. Keyed (\<lambda>k. if k = ''foo'' then [''bar'', ''baz''] else [])),
         debugLog = []\<rparr>)"
  by (simp add: NewMacro_def compile_def Expand_def expandToken_def Unknown_def Cut_def
      isValidMacroChar_def ToLower_def toLower_char_def Let_def)

text \<open>
  C5, at the templates \<open>abc%{\<close> and \<open>%{\<close>, whose opener is the end of the input:
  compilation succeeds, with the literal before the opener as the only token, or with
  no token at all.
\<close>

theorem NewMacro_trailing_opener:
  "NewMacro parse ''abc%{'' =
     Inr \<lparr>original = ''abc%{'',
          tokens = [\<lparr>t_text = ''abc'', t_variable = Unknown, t_key = []\<rparr>]\<rparr>
   \<and> NewMacro parse ''%{'' = Inr \<lparr>original = ''%{'', tokens = []\<rparr>"
  by (simp add: NewMacro_def compile_def)

text \<open>
  C9: \<open>NewMacro\<close> on the empty string returns the empty-data error and no macro,
  whatever the variables are.
\<close>

theorem NewMacro_empty:
  "NewMacro parse [] = Inl errEmptyData"
  by (simp add: NewMacro_def)

section \<open>Properties of the names view\<close>

lemma append_names_eq: "append_names rv ds res = res @ map (name_record rv) ds"
  by (induction ds arbitrary: res) (simp_all add: name_record_def)

lemma FindAll_loop_eq:
  "FindAll_loop rv dat res = res @ concat (map (\<lambda>(k, ds). map (name_record rv) ds) dat)"
  by (induction dat arbitrary: res) (auto simp: append_names_eq)

lemma FindString_loop_eq:
  "FindString_loop rv key dat res =
     res @ concat (map (\<lambda>(k, ds). map (name_record rv) ds) (filter (\<lambda>(k, ds). k = key) dat))"
  by (induction dat arbitrary: res) (auto simp: append_names_eq)

lemma FindRegex_loop_eq:
  "FindRegex_loop rv re dat res =
     res @ concat (map (\<lambda>(k, ds). map (name_record rv) ds)
                    (filter (\<lambda>(k, ds). MatchString re k) dat))"
  by (induction dat arbitrary: res) (auto simp: append_names_eq)

text \<open>
  C7: every record that \<open>FindAll\<close>, \<open>FindString\<close> or \<open>FindRegex\<close> of the names view
  returns carries the view's variable, has its value equal to its key, and that key is
  the key written in an element stored in the collection; and every stored element
  has its record in the result of \<open>FindAll\<close>.
\<close>

theorem names_view_records:
  "(\<forall>r \<in> set (FindAll c) \<union> set (FindString c key) \<union> set (FindRegex c re).
      md_Variable r = n_variable c \<and> md_Value r = md_Key r
      \<and> (\<exists>k ds d. (k, ds) \<in> set (m_data (nc_Map (n_collection c))) \<and> d \<in> set ds
            \<and> md_Key r = kv_key d))
   \<and> (\<forall>k ds d. (k, ds) \<in> set (m_data (nc_Map (n_collection c))) \<and> d \<in> set ds \<longrightarrow>
         \<lparr>md_Variable = n_variable c, md_Key = kv_key d, md_Value = kv_key d\<rparr>
           \<in> set (FindAll c))"
proof -
  let ?dat = "m_data (nc_Map (n_collection c))"
  let ?rv = "n_variable c"
  have 1: "\<forall>r \<in> set (FindAll c) \<union> set (FindString c key) \<union> set (FindRegex c re).
      md_Variable r = ?rv \<and> md_Value r = md_Key r
      \<and> (\<exists>k ds d. (k, ds) \<in> set ?dat \<and> d \<in> set ds \<and> md_Key r = kv_key d)"
    by (fastforce simp: FindAll_def FindString_def FindRegex_def FindAll_loop_eq
        FindString_loop_eq FindRegex_loop_eq name_record_def)
  have 2: "\<forall>k ds d. (k, ds) \<in> set ?dat \<and> d \<in> set ds \<longrightarrow>
         \<lparr>md_Variable = ?rv, md_Key = kv_key d, md_Value = kv_key d\<rparr> \<in> set (FindAll c)"
    by (fastforce simp: FindAll_def FindAll_loop_eq name_record_def)
  from 1 2 show ?thesis by blast
qed

theorem names_view_records_witness:
  "\<lparr>md_Variable = 2, md_Key = ''Host'', md_Value = ''Host''\<rparr>
     \<in> set (FindAll \<lparr>n_variable = 2, n_collection =
          \<lparr>nc_Map = \<lparr>m_data = [(''host'', [\<lparr>kv_key = ''Host'', kv_value = ''example.com''\<rparr>])],
                     m_variable = 1\<rparr>\<rparr>\<rparr>)
   \<and> FindString \<lparr>n_variable = 2, n_collection =
          \<lparr>nc_Map = \<lparr>m_data = [(''host'', [\<lparr>kv_key = ''Host'', kv_value = ''example.com''\<rparr>])],
                     m_variable = 1\<rparr>\<rparr>\<rparr> ''host''
      = [\<lparr>md_Variable = 2, md_Key = ''Host'', md_Value = ''Host''\<rparr>]"
  using names_view_records
    [of "\<lparr>n_variable = 2, n_collection =
          \<lparr>nc_Map = \<lparr>m_data = [(''host'', [\<lparr>kv_key = ''Host'', kv_value = ''example.com''\<rparr>])],
                     m_variable = 1\<rparr>\<rparr>\<rparr>" "''host''"
        "\<lparr>expr = ''(?sm)^host$'', FindStringSubmatch = (\<lambda>_. []),
          MatchString = (\<lambda>k. k = ''host'')\<rparr>"]
  by (simp add: FindString_def)

text \<open>
  C10: \<open>Get\<close> of the names view is \<open>Get\<close> of the underlying map at the same key. On
  a new collection to which one value \<open>v\<close> was added under \<open>k\<close>, it returns \<open>v\<close> for \<open>k\<close>,
  where \<open>FindAll\<close> of the same view reports \<open>k\<close> as key and as value.
\<close>

theorem names_view_Get_values:
  "Get c key = Map_Get (nc_Map (n_collection c)) key
   \<and> Get (Names (NamedCollection_Add (NewNamedCollection rv0) k v) rv) k = [v]
   \<and> FindAll (Names (NamedCollection_Add (NewNamedCollection rv0) k v) rv)
       = [\<lparr>md_Variable = rv, md_Key = k, md_Value = k\<rparr>]"
  by (simp add: Get_def Map_Get_def Names_def NamedCollection_Add_def NewNamedCollection_def
      NewMap_def Map_Add_def FindAll_def)

end
